theory Spec2Isabelle
  imports Main "HOL-Library.AList"
begin

section \<open>Python values and the operations queue.py applies to them\<close>

text \<open>
  \<^verbatim>\<open>shudder/queue.py\<close> handles dynamically typed values: the parsed JSON of a message or
  of a queue policy, the entries of \<^verbatim>\<open>CONFIG\<close>, and boto3 resource objects. A dict
  keeps its insertion order, so it is an association list; JSON object keys are strings.
  \<open>PFloat m e\<close> stands for a float (mantissa and exponent), \<open>PObject n\<close> for an object
  of a class \<open>n\<close> that is none of the built-in types, as the \<^verbatim>\<open>sqs.Queue\<close> and
  \<^verbatim>\<open>sqs.Message\<close> resources of boto3 are.
\<close>

datatype pyval =
    PNone
  | PBool bool
  | PInt int
  | PFloat int int
  | PStr string
  | PList "pyval list"
  | PDict "(string \<times> pyval) list"
  | PObject string

text \<open>
  The exceptions that can leave a function of the module. \<open>ValueError\<close> is what
  \<^verbatim>\<open>json.loads\<close> raises on text that is not JSON and what \<^verbatim>\<open>str.format\<close> raises on
  an unbalanced brace; \<open>BotoError\<close> is any failure of a boto3 call.
\<close>

datatype error =
    TypeError
  | KeyError string
  | AttributeError
  | ValueError
  | BotoError string

text \<open>
  \<^verbatim>\<open>a + b\<close>. Every sum in queue.py has a str literal, or the str-or-None result of
  \<^verbatim>\<open>attributes.get\<close>, as one operand; such a sum concatenates two strs and raises
  TypeError for every other operand (str has no addition with another type, and
  neither dict, list, None nor a boto3 resource defines a reflected one).
\<close>

fun py_add :: "pyval \<Rightarrow> pyval \<Rightarrow> error + pyval" where
  "py_add (PStr a) (PStr b) = Inr (PStr (a @ b))"
| "py_add _ _ = Inl TypeError"

text \<open>\<^verbatim>\<open>x[k]\<close> for a str key \<open>k\<close>: only a dict is subscriptable by a str.\<close>

fun py_getitem :: "pyval \<Rightarrow> string \<Rightarrow> error + pyval" where
  "py_getitem (PDict d) k = (case map_of d k of None \<Rightarrow> Inl (KeyError k) | Some v \<Rightarrow> Inr v)"
| "py_getitem _ k = Inl TypeError"

text \<open>\<^verbatim>\<open>x[k] = v\<close> for a str key: a new key goes last, a present key keeps its place.\<close>

fun py_setitem :: "pyval \<Rightarrow> string \<Rightarrow> pyval \<Rightarrow> error + pyval" where
  "py_setitem (PDict d) k v = Inr (PDict (AList.update k v d))"
| "py_setitem _ k v = Inl TypeError"

text \<open>\<^verbatim>\<open>k in s\<close> for two strs: \<open>k\<close> occurs in \<open>s\<close> as a contiguous piece.\<close>

fun str_contains :: "string \<Rightarrow> string \<Rightarrow> bool" where
  "str_contains k [] = (k = [])"
| "str_contains k (c # cs) = (take (length k) (c # cs) = k \<or> str_contains k cs)"

text \<open>
  \<^verbatim>\<open>k in x\<close> for a str \<open>k\<close>: a key of a dict, an element of a list, a piece of a
  str; the other values are not iterable.
\<close>

fun py_contains :: "string \<Rightarrow> pyval \<Rightarrow> error + bool" where
  "py_contains k (PDict d) = Inr (map_of d k \<noteq> None)"
| "py_contains k (PList xs) = Inr (List.member xs (PStr k))"
| "py_contains k (PStr s) = Inr (str_contains k s)"
| "py_contains k _ = Inl TypeError"

text \<open>The values a \<^verbatim>\<open>for\<close> loop over \<open>x\<close> visits.\<close>

fun py_iter :: "pyval \<Rightarrow> error + pyval list" where
  "py_iter (PList xs) = Inr xs"
| "py_iter (PDict d) = Inr (map (\<lambda>kv. PStr (fst kv)) d)"
| "py_iter (PStr s) = Inr (map (\<lambda>c. PStr [c]) s)"
| "py_iter _ = Inl TypeError"

text \<open>
  \<^verbatim>\<open>json.loads(x)\<close>. The decoder itself is the standard library's and is a parameter
  \<open>loads\<close>, giving \<open>None\<close> for text that is not JSON; an argument that is not a str
  is refused with TypeError.
\<close>

fun json_loads :: "(string \<Rightarrow> pyval option) \<Rightarrow> pyval \<Rightarrow> error + pyval" where
  "json_loads loads (PStr s) = (case loads s of None \<Rightarrow> Inl ValueError | Some v \<Rightarrow> Inr v)"
| "json_loads loads _ = Inl TypeError"

text \<open>
  \<^verbatim>\<open>template.format(**kwargs)\<close> for str arguments and a template of literal text and
  \<^verbatim>\<open>{name}\<close> fields (no escapes, conversions or format specs, as in the one template
  of the module). The first argument is the field name being read, if any.
\<close>

fun format_from :: "string option \<Rightarrow> string \<Rightarrow> (string \<times> string) list \<Rightarrow> error + string" where
  "format_from None [] kwargs = Inr []"
| "format_from (Some name) [] kwargs = Inl ValueError"
| "format_from None (c # cs) kwargs =
     (if c = CHR ''{'' then format_from (Some []) cs kwargs
      else if c = CHR ''}'' then Inl ValueError
      else (case format_from None cs kwargs of Inl e \<Rightarrow> Inl e | Inr r \<Rightarrow> Inr (c # r)))"
| "format_from (Some name) (c # cs) kwargs =
     (if c = CHR ''}'' then
        (case map_of kwargs name of
           None \<Rightarrow> Inl (KeyError name)
         | Some v \<Rightarrow> (case format_from None cs kwargs of Inl e \<Rightarrow> Inl e | Inr r \<Rightarrow> Inr (v @ r)))
      else format_from (Some (name @ [c])) cs kwargs)"

definition py_format :: "string \<Rightarrow> (string \<times> string) list \<Rightarrow> error + string" where
  "py_format template kwargs = format_from None template kwargs"

section \<open>Module state\<close>

text \<open>
  \<^verbatim>\<open>QUEUE_NAME = "{prefix}-{id}".format(prefix=CONFIG['sqs_prefix'], id=INSTANCE_ID)\<close>
  (lines 30-31), for a configured prefix and an instance id that are strs.
\<close>

definition QUEUE_NAME :: "string \<Rightarrow> string \<Rightarrow> error + string" where
  "QUEUE_NAME sqs_prefix INSTANCE_ID =
     py_format ''{prefix}-{id}'' [(''prefix'', sqs_prefix), (''id'', INSTANCE_ID)]"

section \<open>Service calls and their traces\<close>

text \<open>
  A function of the module either raises or returns, and on the way it calls SQS, SNS
  and the autoscaling service through boto3. A run is therefore the list of service
  calls it made, in order, and its outcome. What a service answers is outside the
  program: the record \<open>aws\<close> holds the answer to each kind of call, an error when the
  call fails.
\<close>

record sqs_message =
  message_id :: string
  body :: string

record sqs_queue =
  queue_url :: string
  attributes :: "(string \<times> string) list"

datatype aws_call =
    CreateQueue string "(string \<times> string) list"
  | TagQueue pyval pyval
  | SetQueueAttributes string "(string \<times> string) list"
  | Subscribe pyval string pyval
  | ReceiveMessages
  | DeleteMessage string
  | CompleteLifecycleAction pyval pyval pyval string pyval

record aws =
  create_queue_response :: "error + pyval"
  tag_queue_response :: "error + pyval"
  set_attributes_response :: "error + pyval"
  subscribe_response :: "error + pyval"
  receive_messages_response :: "error + sqs_message list"
  delete_message_response :: "error + pyval"
  complete_lifecycle_action_response :: "error + pyval"

type_synonym 'a run = "aws_call list \<times> (error + 'a)"

text \<open>Sequencing: an exception ends the run, keeping the calls made so far.\<close>

definition seq :: "error + 'a \<Rightarrow> ('a \<Rightarrow> error + 'b) \<Rightarrow> error + 'b" where
  "seq r f = (case r of Inl e \<Rightarrow> Inl e | Inr v \<Rightarrow> f v)"

definition and_then :: "'a run \<Rightarrow> ('a \<Rightarrow> 'b run) \<Rightarrow> 'b run" where
  "and_then m f =
     (case m of
        (calls, Inl e) \<Rightarrow> (calls, Inl e)
      | (calls, Inr v) \<Rightarrow> (case f v of (calls', r) \<Rightarrow> (calls @ calls', r)))"

definition pure_step :: "error + 'a \<Rightarrow> 'a run" where
  "pure_step r = ([], r)"

definition call :: "aws_call \<Rightarrow> error + 'a \<Rightarrow> 'a run" where
  "call c response = ([c], response)"

text \<open>\<^verbatim>\<open>queue.attributes.get(k)\<close>: the attribute's text, or None.\<close>

definition attributes_get :: "sqs_queue \<Rightarrow> string \<Rightarrow> pyval" where
  "attributes_get queue k = (case map_of (attributes queue) k of None \<Rightarrow> PNone | Some a \<Rightarrow> PStr a)"

section \<open>create_queue (lines 34-48)\<close>

text \<open>
  \<^verbatim>\<open>CONFIG\<close> is the dict of \<^verbatim>\<open>shudder.config\<close> and \<open>queue_name\<close> the value of the
  module's constant \<^verbatim>\<open>QUEUE_NAME\<close>; both are read, never written. The steps follow the source line by line:
  the log line 36, the create call 38, the tagging block 40-42, the queue resource
  45-46, the log line 47 (a str plus the \<^verbatim>\<open>sqs.Queue\<close> resource) and the return 48.
\<close>

definition create_queue :: "aws \<Rightarrow> (string \<times> pyval) list \<Rightarrow> string \<Rightarrow> pyval run" where
  "create_queue aws CONFIG queue_name =
     and_then (pure_step (py_getitem (PDict CONFIG) ''region'')) (\<lambda>region.
     and_then (pure_step (py_add (PStr (''Connecting to sqs '' @ queue_name @ ''on region '')) region)) (\<lambda>_.
     and_then (call (CreateQueue queue_name [(''VisibilityTimeout'', ''3600'')])
                 (create_queue_response aws)) (\<lambda>queue_metadata.
     and_then
       (if map_of CONFIG ''queue_tags'' \<noteq> None then
          and_then (pure_step (py_getitem (PDict CONFIG) ''queue_tags'')) (\<lambda>tags.
          and_then (pure_step (py_add (PStr ''Creating SQS tags: '') tags)) (\<lambda>_.
          and_then (pure_step (py_getitem queue_metadata ''QueueUrl'')) (\<lambda>url.
          call (TagQueue url tags) (tag_queue_response aws))))
        else pure_step (Inr PNone)) (\<lambda>_.
     and_then (pure_step (py_getitem queue_metadata ''QueueUrl'')) (\<lambda>url.
     and_then (pure_step (py_add (PStr ''queue object: '') (PObject ''sqs.Queue''))) (\<lambda>_.
     pure_step (Inr url)))))))"

section \<open>should_terminate (lines 89-101)\<close>

definition termination_msg :: string where
  "termination_msg = ''autoscaling:EC2_INSTANCE_TERMINATING''"

text \<open>
  The condition of line 97. \<^verbatim>\<open>and\<close> evaluates its operands left to right and stops
  at the first false one; a subscript of a missing key raises KeyError.
\<close>

definition is_our_termination :: "string \<Rightarrow> pyval \<Rightarrow> error + bool" where
  "is_our_termination INSTANCE_ID message =
     seq (py_contains ''LifecycleTransition'' message) (\<lambda>present.
     if \<not> present then Inr False
     else seq (py_getitem message ''LifecycleTransition'') (\<lambda>transition.
     if transition \<noteq> PStr termination_msg then Inr False
     else seq (py_getitem message ''EC2InstanceId'') (\<lambda>instance.
     Inr (PStr INSTANCE_ID = instance))))"

text \<open>
  Lines 91-101: the outer envelope is parsed and logged (a str plus the parsed value),
  its \<^verbatim>\<open>Message\<close> entry is parsed and logged, and the condition decides between the
  parsed message and None.
\<close>

definition should_terminate :: "(string \<Rightarrow> pyval option) \<Rightarrow> string \<Rightarrow> sqs_message \<Rightarrow> error + pyval" where
  "should_terminate loads INSTANCE_ID msg =
     seq (json_loads loads (PStr (body msg))) (\<lambda>first_box.
     seq (py_add (PStr ''Message raw:'') first_box) (\<lambda>_.
     seq (py_getitem first_box ''Message'') (\<lambda>inner.
     seq (json_loads loads inner) (\<lambda>message.
     seq (py_add (PStr ''SQS Message:'') message) (\<lambda>_.
     seq (is_our_termination INSTANCE_ID message) (\<lambda>ours.
     if ours then Inr message else Inr PNone))))))"

section \<open>complete_lifecycle_action (lines 126-139)\<close>

text \<open>
  Three of the event's fields are logged (lines 129, 130, 132), the client is made for
  \<^verbatim>\<open>CONFIG['region']\<close>, and the call's keyword arguments are read from the event in
  the order written, the token among them. The function has no \<^verbatim>\<open>return\<close>: the reply
  of the service is dropped and the result is None; a failure of the call is raised.
\<close>

definition complete_lifecycle_action :: "aws \<Rightarrow> (string \<times> pyval) list \<Rightarrow> pyval \<Rightarrow> pyval run" where
  "complete_lifecycle_action aws CONFIG message =
     and_then (pure_step (py_getitem message ''LifecycleHookName'')) (\<lambda>hook.
     and_then (pure_step (py_add (PStr ''LifecycleHookName: '') hook)) (\<lambda>_.
     and_then (pure_step (py_getitem message ''AutoScalingGroupName'')) (\<lambda>group.
     and_then (pure_step (py_add (PStr ''AutoScalingGroupName: '') group)) (\<lambda>_.
     and_then (pure_step (py_getitem message ''EC2InstanceId'')) (\<lambda>instance.
     and_then (pure_step (py_add (PStr ''InstanceId: '') instance)) (\<lambda>_.
     and_then (pure_step (py_getitem (PDict CONFIG) ''region'')) (\<lambda>region.
     and_then (pure_step (py_getitem message ''LifecycleActionToken'')) (\<lambda>token.
     and_then (call (CompleteLifecycleAction hook group token ''CONTINUE'' instance)
                 (complete_lifecycle_action_response aws)) (\<lambda>reply.
     pure_step (Inr PNone))))))))))"

section \<open>poll_queue (lines 142-150)\<close>

text \<open>
  The body of the \<^verbatim>\<open>for\<close> loop ends in \<^verbatim>\<open>return\<close>, so the loop never reaches a
  second message: \<open>later\<close> is not used. Line 147 adds a str and the \<^verbatim>\<open>sqs.Message\<close>
  resource before the message is deleted.
\<close>

fun poll_queue_loop :: "aws \<Rightarrow> (string \<Rightarrow> pyval option) \<Rightarrow> string \<Rightarrow> sqs_message list \<Rightarrow> pyval run" where
  "poll_queue_loop aws loads INSTANCE_ID [] = pure_step (Inr (PBool False))"
| "poll_queue_loop aws loads INSTANCE_ID (message # later) =
     and_then (pure_step (py_add (PStr ''Polled message: '') (PObject ''sqs.Message''))) (\<lambda>_.
     and_then (call (DeleteMessage (message_id message)) (delete_message_response aws)) (\<lambda>_.
     pure_step (should_terminate loads INSTANCE_ID message)))"

definition poll_queue :: "aws \<Rightarrow> (string \<Rightarrow> pyval option) \<Rightarrow> string \<Rightarrow> pyval run" where
  "poll_queue aws loads INSTANCE_ID =
     and_then (call ReceiveMessages (receive_messages_response aws)) (\<lambda>messages.
     poll_queue_loop aws loads INSTANCE_ID messages)"

section \<open>subscribe_sns (lines 51-86)\<close>

text \<open>The loop of lines 67-69: every statement is subscripted by \<^verbatim>\<open>'Sid'\<close>.\<close>

fun sid_exists :: "pyval list \<Rightarrow> string \<Rightarrow> bool \<Rightarrow> error + bool" where
  "sid_exists [] statement_id found = Inr found"
| "sid_exists (statement # rest) statement_id found =
     (case py_getitem statement ''Sid'' of
        Inl e \<Rightarrow> Inl e
      | Inr sid \<Rightarrow> sid_exists rest statement_id (if sid = PStr statement_id then True else found))"

text \<open>The statement of lines 71-76.\<close>

definition new_statement :: "string \<Rightarrow> pyval \<Rightarrow> pyval \<Rightarrow> pyval" where
  "new_statement statement_id arn topic =
     PDict [(''Action'', PStr ''SQS:SendMessage''),
            (''Effect'', PStr ''Allow''),
            (''Principal'', PDict [(''AWS'', PStr ''*'')]),
            (''Resource'', arn),
            (''Sid'', PStr statement_id),
            (''Condition'', PDict [(''ForAllValues:ArnEquals'', PDict [(''aws:SourceArn'', topic)])])]"

text \<open>
  \<^verbatim>\<open>policy['Statement'].append(statement)\<close> (line 77): only a list has \<^verbatim>\<open>append\<close>,
  and the list changes in place inside the policy.
\<close>

definition append_statement :: "pyval \<Rightarrow> pyval \<Rightarrow> error + pyval" where
  "append_statement policy statement =
     seq (py_getitem policy ''Statement'') (\<lambda>statements.
     case statements of
       PList xs \<Rightarrow> py_setitem policy ''Statement'' (PList (xs @ [statement]))
     | _ \<Rightarrow> Inl AttributeError)"

text \<open>Lines 62-77: the defaults, the search for the statement id, the append.\<close>

definition authorize_topic :: "string \<Rightarrow> pyval \<Rightarrow> pyval \<Rightarrow> pyval \<Rightarrow> error + pyval" where
  "authorize_topic statement_id arn topic policy0 =
     seq (py_contains ''Version'' policy0) (\<lambda>has_version.
     seq (if has_version then Inr policy0
          else py_setitem policy0 ''Version'' (PStr ''2008-10-17'')) (\<lambda>policy1.
     seq (py_contains ''Statement'' policy1) (\<lambda>has_statement.
     seq (if has_statement then Inr policy1
          else py_setitem policy1 ''Statement'' (PList [])) (\<lambda>policy.
     seq (py_getitem policy ''Statement'') (\<lambda>statements.
     seq (py_iter statements) (\<lambda>visited.
     seq (sid_exists visited statement_id False) (\<lambda>statement_id_exists.
     if statement_id_exists then Inr policy
     else append_statement policy (new_statement statement_id arn topic))))))))"

text \<open>
  \<^verbatim>\<open>hashlib.md5\<close> and \<^verbatim>\<open>json.dumps\<close> are library functions and parameters here. Line 53
  joins the topic and the queue's ARN (None when the attribute is missing) and hashes
  the text; line 57 takes the stored policy when it is a non-empty str; lines 61 and
  78 add a str and the policy for the log.
\<close>

definition subscribe_sns ::
  "aws \<Rightarrow> (string \<Rightarrow> pyval option) \<Rightarrow> (pyval \<Rightarrow> string) \<Rightarrow> (string \<Rightarrow> string) \<Rightarrow>
   (string \<times> pyval) list \<Rightarrow> sqs_queue \<Rightarrow> pyval run" where
  "subscribe_sns aws loads dumps md5_hexdigest CONFIG queue =
     and_then (pure_step (py_getitem (PDict CONFIG) ''sns_topic'')) (\<lambda>topic.
     and_then (pure_step (py_add topic (attributes_get queue ''QueueArn''))) (\<lambda>joined.
     and_then (pure_step (case joined of PStr s \<Rightarrow> Inr (md5_hexdigest s)
                          | _ \<Rightarrow> Inl AttributeError)) (\<lambda>statement_id.
     and_then (pure_step (py_add (PStr ''Statement ID: '') (PStr statement_id))) (\<lambda>_.
     and_then (pure_step (case attributes_get queue ''Policy'' of
                            PStr existing_policy \<Rightarrow>
                              if existing_policy \<noteq> [] then json_loads loads (PStr existing_policy)
                              else Inr (PDict [])
                          | _ \<Rightarrow> Inr (PDict []))) (\<lambda>policy0.
     and_then (pure_step (py_add (PStr ''Policy: '') policy0)) (\<lambda>_.
     and_then (pure_step (authorize_topic statement_id (attributes_get queue ''QueueArn'')
                            topic policy0)) (\<lambda>policy.
     and_then (pure_step (py_add (PStr ''Policy:'') policy)) (\<lambda>_.
     and_then (call (SetQueueAttributes (queue_url queue) [(''Policy'', dumps policy)])
                 (set_attributes_response aws)) (\<lambda>_.
     and_then (pure_step (py_getitem (PDict CONFIG) ''region'')) (\<lambda>region.
     and_then (call (Subscribe topic ''sqs'' (attributes_get queue ''QueueArn''))
                 (subscribe_response aws)) (\<lambda>sub.
     and_then (pure_step (py_getitem sub ''SubscriptionArn'')) (\<lambda>sns_arn.
     and_then (pure_step (py_add (PStr ''SNS:'') sns_arn)) (\<lambda>_.
     pure_step (Inr sns_arn))))))))))))))"

section \<open>Example inputs\<close>

text \<open>
  The JSON text of a str, as SNS writes an application payload into the \<^verbatim>\<open>Message\<close>
  entry of its envelope: double quote and backslash are escaped by a backslash.
\<close>

definition json_quoted :: "string \<Rightarrow> string" where
  "json_quoted s =
     CHR 0x22 # concat (map (\<lambda>c. if c = CHR 0x22 \<or> c = CHR 0x5C then [CHR 0x5C, c] else [c]) s)
       @ [CHR 0x22]"

definition sns_envelope :: "string \<Rightarrow> string" where
  \<open>sns_envelope inner = ''{"Message": '' @ json_quoted inner @ ''}''\<close>

text \<open>A termination notice for instance i-0123, and what it parses to.\<close>

definition own_notice_text :: string where
  \<open>own_notice_text = ''{"LifecycleTransition": "autoscaling:EC2_INSTANCE_TERMINATING", "EC2InstanceId": "i-0123", "LifecycleHookName": "drain", "AutoScalingGroupName": "web", "LifecycleActionToken": "tok-1"}''\<close>

definition own_notice :: pyval where
  "own_notice =
     PDict [(''LifecycleTransition'', PStr ''autoscaling:EC2_INSTANCE_TERMINATING''),
            (''EC2InstanceId'', PStr ''i-0123''),
            (''LifecycleHookName'', PStr ''drain''),
            (''AutoScalingGroupName'', PStr ''web''),
            (''LifecycleActionToken'', PStr ''tok-1'')]"

text \<open>A termination notice for another instance.\<close>

definition other_notice_text :: string where
  \<open>other_notice_text = ''{"LifecycleTransition": "autoscaling:EC2_INSTANCE_TERMINATING", "EC2InstanceId": "i-9999"}''\<close>

definition other_notice :: pyval where
  "other_notice =
     PDict [(''LifecycleTransition'', PStr ''autoscaling:EC2_INSTANCE_TERMINATING''),
            (''EC2InstanceId'', PStr ''i-9999'')]"

text \<open>A termination notice that names no instance.\<close>

definition anonymous_notice_text :: string where
  \<open>anonymous_notice_text = ''{"LifecycleTransition": "autoscaling:EC2_INSTANCE_TERMINATING"}''\<close>

definition anonymous_notice :: pyval where
  "anonymous_notice = PDict [(''LifecycleTransition'', PStr ''autoscaling:EC2_INSTANCE_TERMINATING'')]"

text \<open>A queue policy that already holds the statement with id \<^verbatim>\<open>5d41402a\<close>.\<close>

definition stored_policy_text :: string where
  \<open>stored_policy_text = ''{"Version": "2008-10-17", "Statement": [{"Sid": "5d41402a"}]}''\<close>

definition stored_policy :: pyval where
  "stored_policy =
     PDict [(''Version'', PStr ''2008-10-17''),
            (''Statement'', PList [PDict [(''Sid'', PStr ''5d41402a'')]])]"

text \<open>
  \<^verbatim>\<open>json.loads\<close> on the texts above and on the envelopes around them; every other text,
  \<^verbatim>\<open>not json\<close> among them, counts as unparsable.
\<close>

definition sample_loads :: "string \<Rightarrow> pyval option" where
  "sample_loads =
     map_of [(own_notice_text, own_notice),
             (other_notice_text, other_notice),
             (anonymous_notice_text, anonymous_notice),
             (stored_policy_text, stored_policy),
             (sns_envelope own_notice_text, PDict [(''Message'', PStr own_notice_text)]),
             (sns_envelope other_notice_text, PDict [(''Message'', PStr other_notice_text)]),
             (sns_envelope anonymous_notice_text, PDict [(''Message'', PStr anonymous_notice_text)]),
             (sns_envelope ''not json'', PDict [(''Message'', PStr ''not json'')])]"

definition sample_md5 :: "string \<Rightarrow> string" where
  "sample_md5 text = ''5d41402a''"

definition sample_dumps :: "pyval \<Rightarrow> string" where
  "sample_dumps v = (if v = stored_policy then stored_policy_text else [])"

text \<open>Services that answer every call; \<open>messages\<close> is what the next receive returns.\<close>

definition healthy_aws :: "sqs_message list \<Rightarrow> aws" where
  "healthy_aws messages =
     \<lparr>create_queue_response = Inr (PDict [(''QueueUrl'', PStr ''https://sqs/myapp-i-0123'')]),
      tag_queue_response = Inr PNone,
      set_attributes_response = Inr PNone,
      subscribe_response = Inr (PDict [(''SubscriptionArn'', PStr ''arn:aws:sns:sub-1'')]),
      receive_messages_response = Inr messages,
      delete_message_response = Inr PNone,
      complete_lifecycle_action_response = Inr (PDict [(''ResponseMetadata'', PDict [])])\<rparr>"

definition sample_CONFIG :: "(string \<times> pyval) list" where
  "sample_CONFIG =
     [(''region'', PStr ''us-east-1''),
      (''sqs_prefix'', PStr ''myapp''),
      (''sns_topic'', PStr ''arn:aws:sns:shutdowns'')]"

definition sample_queue :: sqs_queue where
  "sample_queue =
     \<lparr>queue_url = ''https://sqs/myapp-i-0123'',
      attributes = [(''QueueArn'', ''arn:aws:sqs:myapp-i-0123''), (''Policy'', stored_policy_text)]\<rparr>"

text \<open>Received messages: the envelopes around the notices above, and one whose payload is not JSON.\<close>

definition own_message :: sqs_message where
  "own_message = \<lparr>message_id = ''m-own'', body = sns_envelope own_notice_text\<rparr>"

definition other_message :: sqs_message where
  "other_message = \<lparr>message_id = ''m-other'', body = sns_envelope other_notice_text\<rparr>"

definition anonymous_message :: sqs_message where
  "anonymous_message = \<lparr>message_id = ''m-anonymous'', body = sns_envelope anonymous_notice_text\<rparr>"

definition malformed_message :: sqs_message where
  "malformed_message = \<lparr>message_id = ''m-malformed'', body = sns_envelope ''not json''\<rparr>"

text \<open>
  A configuration whose \<^verbatim>\<open>queue_tags\<close> entry is a mapping, as the tagging call
  requires. Then one whose entry is a str, and services whose tagging call fails
  (boto3 refuses \<^verbatim>\<open>Tags\<close> that are not a mapping).
\<close>

definition mapping_CONFIG :: "(string \<times> pyval) list" where
  "mapping_CONFIG = sample_CONFIG @ [(''queue_tags'', PDict [(''team'', PStr ''infra'')])]"

definition tagged_CONFIG :: "(string \<times> pyval) list" where
  "tagged_CONFIG = sample_CONFIG @ [(''queue_tags'', PStr ''team=infra'')]"

definition aws_tagging_fails :: aws where
  "aws_tagging_fails =
     (healthy_aws [])\<lparr>tag_queue_response := Inl (BotoError ''ParamValidationError'')\<rparr>"

section \<open>Properties\<close>

lemmas run_defs = seq_def and_then_def pure_step_def call_def

subsection \<open>The log lines\<close>

text \<open>A str literal plus \<open>v\<close> has a value only when \<open>v\<close> is a str.\<close>

lemma py_add_literal: "py_add (PStr a) v = Inr r \<Longrightarrow> \<exists>b. v = PStr b"
  by (cases v) auto

text \<open>
  Line 92 adds a str and the parsed envelope. An envelope that is a dict (or anything
  but a str) stops there with TypeError; one that is a str passes the log line and
  stops at the subscript of line 93. So should_terminate has no input on which it
  returns.
\<close>

lemma should_terminate_parsed_raises:
  "loads (body msg) = Some first_box \<Longrightarrow> should_terminate loads INSTANCE_ID msg = Inl TypeError"
  by (cases first_box) (auto simp: should_terminate_def seq_def)

lemma should_terminate_never_returns: "\<exists>e. should_terminate loads INSTANCE_ID msg = Inl e"
  by (auto simp: should_terminate_def seq_def split: sum.splits dest!: py_add_literal)

text \<open>
  Line 147 adds a str and the message resource: a batch with a first message ends the
  poll with TypeError after the receive call, before any delete. The messages after
  the first never matter to the loop.
\<close>

lemma poll_queue_first_message_raises:
  "receive_messages_response aws = Inr (message # later) \<Longrightarrow>
   poll_queue aws loads INSTANCE_ID = ([ReceiveMessages], Inl TypeError)"
  by (simp add: poll_queue_def run_defs)

lemma poll_queue_loop_ignores_later:
  "poll_queue_loop aws loads INSTANCE_ID (message # later) =
   poll_queue_loop aws loads INSTANCE_ID [message]"
  by simp

text \<open>Line 47 adds a str and the queue resource: create_queue never returns.\<close>

lemma create_queue_never_returns: "\<exists>e. snd (create_queue aws CONFIG queue_name) = Inl e"
  by (auto simp: create_queue_def run_defs split: sum.splits prod.splits option.splits)

text \<open>
  Line 61 adds a str and the policy. A policy that is a dict stops there; one that is
  a str passes and stops in lines 62-67, where it is assigned to or subscripted. So
  subscribe_sns raises on every input, before it writes the policy or subscribes.
\<close>

lemma authorize_topic_str: "\<exists>e. authorize_topic statement_id arn topic (PStr s) = Inl e"
  by (auto simp: authorize_topic_def seq_def)

lemma subscribe_sns_never_returns:
  "\<exists>e. subscribe_sns aws loads dumps md5_hexdigest CONFIG queue = ([], Inl e)"
proof (cases "py_getitem (PDict CONFIG) ''sns_topic''")
  case (Inl e)
  then show ?thesis by (simp add: subscribe_sns_def run_defs)
next
  case topic: (Inr topic)
  show ?thesis
  proof (cases "py_add topic (attributes_get queue ''QueueArn'')")
    case (Inl e)
    with topic show ?thesis by (simp add: subscribe_sns_def run_defs)
  next
    case joined: (Inr joined)
    then obtain s where s: "joined = PStr s"
      by (cases topic; cases "attributes_get queue ''QueueArn''") auto
    define policy0 where
      "policy0 = (case attributes_get queue ''Policy'' of
                    PStr existing_policy \<Rightarrow>
                      if existing_policy \<noteq> [] then json_loads loads (PStr existing_policy)
                      else Inr (PDict [])
                  | _ \<Rightarrow> Inr (PDict []))"
    show ?thesis
    proof (cases policy0)
      case (Inl e)
      with topic joined s show ?thesis
        unfolding policy0_def by (simp add: subscribe_sns_def run_defs)
    next
      case (Inr p)
      show ?thesis
      proof (cases "\<exists>t. p = PStr t")
        case True
        then obtain t where "p = PStr t" by blast
        moreover obtain e where
          "authorize_topic (md5_hexdigest s) (attributes_get queue ''QueueArn'') topic (PStr t) = Inl e"
          using authorize_topic_str by blast
        ultimately show ?thesis using topic joined s Inr
          unfolding policy0_def by (simp add: subscribe_sns_def run_defs)
      next
        case False
        then have "py_add (PStr ''Policy: '') p = Inl TypeError" by (cases p) auto
        then show ?thesis using topic joined s Inr
          unfolding policy0_def by (simp add: subscribe_sns_def run_defs)
      qed
    qed
  qed
qed

subsection \<open>The policy step of subscribe-sns\<close>

text \<open>
  Lines 62-77 on their own, which subscribe_sns reaches only past the log line 61. On
  a policy that has its version and its statement list they look for the statement id
  and append the statement when it is missing; run again on their own result they
  change nothing.
\<close>

lemma sid_exists_append:
  "sid_exists (xs @ ys) sid found =
     (case sid_exists xs sid found of Inl e \<Rightarrow> Inl e | Inr b \<Rightarrow> sid_exists ys sid b)"
  by (induction xs arbitrary: found) (auto split: sum.splits)

lemma authorize_topic_complete_policy:
  assumes "map_of d ''Version'' = Some v" and "map_of d ''Statement'' = Some st"
  shows "authorize_topic sid arn topic (PDict d) =
           seq (py_iter st) (\<lambda>visited.
           seq (sid_exists visited sid False) (\<lambda>statement_id_exists.
           if statement_id_exists then Inr (PDict d)
           else append_statement (PDict d) (new_statement sid arn topic)))"
  using assms by (simp add: authorize_topic_def seq_def)

lemma authorize_topic_complete_idempotent:
  assumes v: "map_of d ''Version'' = Some v" and st: "map_of d ''Statement'' = Some st"
    and run: "authorize_topic sid arn topic (PDict d) = Inr p'"
  shows "authorize_topic sid arn topic p' = Inr p'"
proof -
  from run obtain visited where visited: "py_iter st = Inr visited"
    unfolding authorize_topic_complete_policy [OF v st] by (cases "py_iter st") (auto simp: seq_def)
  from run visited obtain found where found: "sid_exists visited sid False = Inr found"
    unfolding authorize_topic_complete_policy [OF v st]
    by (cases "sid_exists visited sid False") (auto simp: seq_def)
  show ?thesis
  proof (cases found)
    case True
    with run visited found have "p' = PDict d"
      unfolding authorize_topic_complete_policy [OF v st] by (simp add: seq_def)
    with run show ?thesis by simp
  next
    case False
    with run visited found have app: "append_statement (PDict d) (new_statement sid arn topic) = Inr p'"
      unfolding authorize_topic_complete_policy [OF v st] by (simp add: seq_def)
    then obtain xs where xs: "st = PList xs"
      using st by (cases st) (auto simp: append_statement_def seq_def)
    with app st have p': "p' = PDict (AList.update ''Statement'' (PList (xs @ [new_statement sid arn topic])) d)"
      by (simp add: append_statement_def seq_def)
    have v': "map_of (AList.update ''Statement'' (PList (xs @ [new_statement sid arn topic])) d) ''Version'' = Some v"
      using v by (simp add: update_conv')
    have st': "map_of (AList.update ''Statement'' (PList (xs @ [new_statement sid arn topic])) d) ''Statement''
                 = Some (PList (xs @ [new_statement sid arn topic]))"
      by (simp add: update_conv')
    from visited xs have "visited = xs" by simp
    with found False have "sid_exists xs sid False = Inr False" by simp
    then have "sid_exists (xs @ [new_statement sid arn topic]) sid False = Inr True"
      by (simp add: sid_exists_append new_statement_def)
    then show ?thesis
      unfolding p' authorize_topic_complete_policy [OF v' st'] by (simp add: seq_def)
  qed
qed

text \<open>
  Line 41 adds a str and the configured tags: tags that are a mapping stop
  create_queue there, before the tagging call.
\<close>

lemma create_queue_mapping_tags_not_applied:
  "map_of CONFIG ''queue_tags'' = Some (PDict tags) \<Longrightarrow>
   TagQueue url t \<notin> set (fst (create_queue aws CONFIG queue_name))"
  by (auto simp: create_queue_def run_defs split: sum.splits prod.splits)

subsection \<open>The example texts and their parses\<close>

lemma sample_loads_own:
  "sample_loads (body own_message) = Some (PDict [(''Message'', PStr own_notice_text)])"
  by (simp add: sample_loads_def own_message_def sns_envelope_def json_quoted_def
      own_notice_text_def other_notice_text_def anonymous_notice_text_def stored_policy_text_def)

lemma sample_loads_anonymous:
  "sample_loads (body anonymous_message) = Some (PDict [(''Message'', PStr anonymous_notice_text)])"
  by (simp add: sample_loads_def anonymous_message_def sns_envelope_def json_quoted_def
      own_notice_text_def other_notice_text_def anonymous_notice_text_def stored_policy_text_def)

lemma sample_loads_malformed:
  "sample_loads (body malformed_message) = Some (PDict [(''Message'', PStr ''not json'')])"
  by (simp add: sample_loads_def malformed_message_def sns_envelope_def json_quoted_def
      own_notice_text_def other_notice_text_def anonymous_notice_text_def stored_policy_text_def)

lemma sample_loads_not_json: "sample_loads ''not json'' = None"
  by (simp add: sample_loads_def sns_envelope_def json_quoted_def own_notice_text_def
      other_notice_text_def anonymous_notice_text_def stored_policy_text_def)

subsection \<open>The claims\<close>

text \<open>
  C1. A message matches when its transition is the terminating one and its instance id
  is this instance's, and a match returns the parsed message. On the code the claim
  fails: for instance i-0123, the termination notice addressed to i-0123 does not
  come back as a match, and the notice that names no instance does not come back as
  no match; on both should_terminate raises TypeError at the log line 92.
\<close>

theorem should_terminate_raises_on_matching_notice:
  "should_terminate sample_loads ''i-0123'' own_message = Inl TypeError \<and>
   should_terminate sample_loads ''i-0123'' anonymous_message = Inl TypeError"
  by (simp add: should_terminate_parsed_raises [of sample_loads own_message, OF sample_loads_own]
      should_terminate_parsed_raises [of sample_loads anonymous_message, OF sample_loads_anonymous])

text \<open>
  C2. A message whose inner body is not JSON makes should_terminate fail on the inner
  layer, after the message was deleted. On the code the claim fails: the poll of a
  batch holding such a message ends with TypeError after the receive call, with no
  delete, and should_terminate itself raises TypeError on the outer envelope's log
  line, before it reads the inner body (which \<open>sample_loads\<close> cannot parse).
\<close>

theorem poll_queue_keeps_malformed_message:
  "poll_queue (healthy_aws [malformed_message]) sample_loads ''i-0123'' =
     ([ReceiveMessages], Inl TypeError) \<and>
   should_terminate sample_loads ''i-0123'' malformed_message = Inl TypeError \<and>
   sample_loads ''not json'' = None"
  by (simp add: poll_queue_first_message_raises healthy_aws_def sample_loads_not_json
      should_terminate_parsed_raises [of sample_loads malformed_message, OF sample_loads_malformed])

text \<open>
  C3. subscribe_sns on a queue whose policy already holds the statement leaves the
  policy as it is and does not fail. On the code the claim fails: on such a queue
  subscribe_sns raises TypeError at the log line 61, having called no service.
\<close>

theorem subscribe_sns_raises_on_stored_policy:
  "subscribe_sns (healthy_aws []) sample_loads sample_dumps sample_md5 sample_CONFIG sample_queue =
     ([], Inl TypeError)"
  by (simp add: subscribe_sns_def run_defs sample_CONFIG_def sample_queue_def attributes_get_def
      sample_md5_def stored_policy_text_def sample_loads_def stored_policy_def own_notice_text_def
      other_notice_text_def anonymous_notice_text_def)

text \<open>
  C4. A batch of a notice for another instance and a notice for this one has both
  messages deleted, and the second yields the event. On the code the claim fails: the
  poll makes the receive call and no delete call, and ends with TypeError.
\<close>

theorem poll_queue_batch_of_two_deletes_nothing:
  "poll_queue (healthy_aws [other_message, own_message]) sample_loads ''i-0123'' =
     ([ReceiveMessages], Inl TypeError)"
  by (simp add: poll_queue_first_message_raises healthy_aws_def)

text \<open>
  C5. The queue name is the configured prefix, a hyphen and the instance id, for every
  prefix and id; prefix \<^verbatim>\<open>myapp\<close> and id \<^verbatim>\<open>i-0123\<close> give \<^verbatim>\<open>myapp-i-0123\<close>.
\<close>

theorem queue_name_is_prefix_hyphen_id:
  "QUEUE_NAME sqs_prefix INSTANCE_ID = Inr (sqs_prefix @ ''-'' @ INSTANCE_ID) \<and>
   QUEUE_NAME ''myapp'' ''i-0123'' = Inr ''myapp-i-0123''"
  by (simp add: QUEUE_NAME_def py_format_def)

text \<open>
  C6. For an event that holds the hook name, the group name and the instance id as
  strs and holds a token, and a configuration with a region, complete_lifecycle_action
  makes exactly one call: CompleteLifecycleAction with those four values of the event
  and the result CONTINUE. It returns None whatever the service replies, and raises
  the error when the call fails.
\<close>

theorem complete_lifecycle_action_continues_with_event_fields:
  assumes "map_of event ''LifecycleHookName'' = Some (PStr hook)"
    and "map_of event ''AutoScalingGroupName'' = Some (PStr asg)"
    and "map_of event ''EC2InstanceId'' = Some (PStr ec2)"
    and "map_of event ''LifecycleActionToken'' = Some token"
    and "map_of CONFIG ''region'' = Some region"
  shows "complete_lifecycle_action aws CONFIG (PDict event) =
           ([CompleteLifecycleAction (PStr hook) (PStr asg) token ''CONTINUE'' (PStr ec2)],
            (case complete_lifecycle_action_response aws of
               Inl e \<Rightarrow> Inl e
             | Inr reply \<Rightarrow> Inr PNone))"
  using assms by (simp add: complete_lifecycle_action_def run_defs split: sum.splits)

theorem complete_lifecycle_action_continues_with_event_fields_witness:
  "complete_lifecycle_action (healthy_aws []) sample_CONFIG own_notice =
     ([CompleteLifecycleAction (PStr ''drain'') (PStr ''web'') (PStr ''tok-1'') ''CONTINUE''
         (PStr ''i-0123'')],
      Inr PNone)"
proof -
  let ?event = "[(''LifecycleTransition'', PStr ''autoscaling:EC2_INSTANCE_TERMINATING''),
            (''EC2InstanceId'', PStr ''i-0123''),
            (''LifecycleHookName'', PStr ''drain''),
            (''AutoScalingGroupName'', PStr ''web''),
            (''LifecycleActionToken'', PStr ''tok-1'')]"
  have hook: "map_of ?event ''LifecycleHookName'' = Some (PStr ''drain'')" by simp
  have asg: "map_of ?event ''AutoScalingGroupName'' = Some (PStr ''web'')" by simp
  have ec2: "map_of ?event ''EC2InstanceId'' = Some (PStr ''i-0123'')" by simp
  have token: "map_of ?event ''LifecycleActionToken'' = Some (PStr ''tok-1'')" by simp
  have region: "map_of sample_CONFIG ''region'' = Some (PStr ''us-east-1'')"
    by (simp add: sample_CONFIG_def)
  from complete_lifecycle_action_continues_with_event_fields [OF hook asg ec2 token region,
      of "healthy_aws []"]
  show ?thesis by (simp add: own_notice_def healthy_aws_def)
qed

text \<open>
  Whatever the event is, a call that complete_lifecycle_action makes carries CONTINUE
  and the event's own four entries.
\<close>

lemma complete_lifecycle_action_calls:
  "c \<in> set (fst (complete_lifecycle_action aws CONFIG message)) \<Longrightarrow>
   \<exists>hook asg token ec2.
     c = CompleteLifecycleAction hook asg token ''CONTINUE'' ec2 \<and>
     py_getitem message ''LifecycleHookName'' = Inr hook \<and>
     py_getitem message ''AutoScalingGroupName'' = Inr asg \<and>
     py_getitem message ''LifecycleActionToken'' = Inr token \<and>
     py_getitem message ''EC2InstanceId'' = Inr ec2"
  by (auto simp: complete_lifecycle_action_def run_defs split: sum.splits prod.splits)



text \<open>
  C8. With tags configured, create_queue applies them to the queue, and a failure of
  the tagging call does not stop it. On the code the claim fails: with tags that are
  a mapping and services that answer every call, create_queue makes the create call
  and raises TypeError at the log line 41, before the tagging call: the tags are not
  applied and create_queue does not complete.
\<close>

theorem create_queue_raises_before_tagging:
  "create_queue (healthy_aws []) mapping_CONFIG ''myapp-i-0123'' =
     ([CreateQueue ''myapp-i-0123'' [(''VisibilityTimeout'', ''3600'')]], Inl TypeError)"
  by (simp add: create_queue_def run_defs healthy_aws_def mapping_CONFIG_def sample_CONFIG_def)

text \<open>
  Only tags that are a str pass line 41. The tagging call is then made for the URL of
  the create call's reply, and no handler surrounds line 42: when the call fails, its
  error is the outcome of create_queue and nothing is tried again.
\<close>

lemma tag_queue_failure_propagates:
  assumes "map_of CONFIG ''region'' = Some (PStr region)"
    and "create_queue_response aws = Inr queue_metadata"
    and "py_getitem queue_metadata ''QueueUrl'' = Inr url"
    and "map_of CONFIG ''queue_tags'' = Some (PStr tags)"
    and "tag_queue_response aws = Inl e"
  shows "create_queue aws CONFIG queue_name =
           ([CreateQueue queue_name [(''VisibilityTimeout'', ''3600'')], TagQueue url (PStr tags)],
            Inl e)"
  using assms by (simp add: create_queue_def run_defs)

lemma tag_queue_failure_is_fatal:
  "create_queue aws_tagging_fails tagged_CONFIG ''myapp-i-0123'' =
     ([CreateQueue ''myapp-i-0123'' [(''VisibilityTimeout'', ''3600'')],
       TagQueue (PStr ''https://sqs/myapp-i-0123'') (PStr ''team=infra'')],
      Inl (BotoError ''ParamValidationError''))"
  by (simp add: create_queue_def run_defs aws_tagging_fails_def healthy_aws_def tagged_CONFIG_def
      sample_CONFIG_def)

text \<open>
  C9. A notice with the terminating transition and no instance id makes the condition
  of line 97 raise KeyError, and so should_terminate. On the code the second part
  fails: the condition does raise KeyError on the parsed notice, but should_terminate
  never reaches it and raises TypeError at the log line 92.
\<close>

theorem should_terminate_type_error_before_key_error:
  "should_terminate sample_loads ''i-0123'' anonymous_message = Inl TypeError \<and>
   is_our_termination ''i-0123'' anonymous_notice = Inl (KeyError ''EC2InstanceId'')"
  by (simp add: should_terminate_parsed_raises [of sample_loads anonymous_message, OF sample_loads_anonymous]
      is_our_termination_def seq_def anonymous_notice_def termination_msg_def)

text \<open>
  C10. poll_queue returns False on an empty batch, and on any other deletes the first
  message and returns its classification. On the code the first part holds and the
  second fails: with one message received, the poll ends with TypeError at the log
  line 147, and the message is not deleted.
\<close>

theorem poll_queue_raises_before_delete:
  "poll_queue (healthy_aws [own_message]) sample_loads ''i-0123'' =
     ([ReceiveMessages], Inl TypeError) \<and>
   poll_queue (healthy_aws []) sample_loads ''i-0123'' = ([ReceiveMessages], Inr (PBool False))"
  by (simp add: poll_queue_first_message_raises healthy_aws_def poll_queue_def run_defs)

end
